theory Spec2Isabelle
  imports Main
begin

section \<open>Checkout URL utilities of the Dodo Payments TypeScript SDK\<close>

text \<open>
  The module under verification is \<^verbatim>\<open>checkout-utils\<close>: \<^verbatim>\<open>enhanceCheckoutUrl\<close>,
  \<^verbatim>\<open>extractLanguageFromUrl\<close>, \<^verbatim>\<open>isValidLanguageCode\<close>, \<^verbatim>\<open>BrowserUtils\<close>,
  \<^verbatim>\<open>redirectToCheckout\<close> and \<^verbatim>\<open>getIframeSafeCheckoutUrl\<close>.

  JavaScript strings are modelled by \<^typ>\<open>string\<close>: a sequence of code units, here
  restricted to the code units below 256. \<^verbatim>\<open>null\<close> and \<^verbatim>\<open>undefined\<close> are the
  value \<^term>\<open>None\<close> of an option type. A call either returns a value or throws.
\<close>

subsection \<open>Values, errors, truthiness\<close>

datatype js_error = Error string | TypeError string

datatype 'a outcome = Returns 'a | Throws js_error

text \<open>A string is truthy unless it is absent or empty: the test behind \<^verbatim>\<open>if (x)\<close>,
  \<^verbatim>\<open>!x\<close> and \<^verbatim>\<open>x || y\<close> on a value of type \<^verbatim>\<open>string | null | undefined\<close>.\<close>

definition truthy :: "string option \<Rightarrow> bool" where
  "truthy x = (case x of None \<Rightarrow> False | Some s \<Rightarrow> s \<noteq> [])"

text \<open>\<^verbatim>\<open>a || b\<close>: the left operand when it is truthy, the right operand otherwise
  (whatever the right operand is).\<close>

definition js_or :: "string option \<Rightarrow> string option \<Rightarrow> string option" where
  "js_or a b = (if truthy a then a else b)"

subsection \<open>String primitives\<close>

definition code_unit :: "char \<Rightarrow> nat" where
  "code_unit c = of_char c"

text \<open>\<^verbatim>\<open>String.prototype.toLowerCase\<close> on code units below 256: the letters A to Z
  and the Latin-1 capitals U+00C0 to U+00DE (the multiplication sign U+00D7 apart)
  move up by 32; every other code unit stays.\<close>

definition lower_unit :: "char \<Rightarrow> char" where
  "lower_unit c =
     (let n = code_unit c in
      if (65 \<le> n \<and> n \<le> 90) \<or> (192 \<le> n \<and> n \<le> 222 \<and> n \<noteq> 215)
      then char_of (n + 32) else c)"

definition toLowerCase :: "string \<Rightarrow> string" where
  "toLowerCase s = map lower_unit s"

text \<open>\<^verbatim>\<open>s.startsWith(t)\<close> and \<^verbatim>\<open>s.includes(t)\<close>: \<open>t\<close> occurs in \<open>s\<close> at
  position 0, respectively at some position.\<close>

fun startsWith :: "string \<Rightarrow> string \<Rightarrow> bool" where
  "startsWith s [] = True"
| "startsWith [] (y # t) = False"
| "startsWith (x # s) (y # t) = (x = y \<and> startsWith s t)"

fun includes_str :: "string \<Rightarrow> string \<Rightarrow> bool" where
  "includes_str [] t = (t = [])"
| "includes_str (x # s) t = (startsWith (x # s) t \<or> includes_str s t)"

subsection \<open>Regular expressions\<close>

text \<open>The fragment of the pattern language that the module uses: a character range
  \<^verbatim>\<open>[a-z]\<close>, a literal character, concatenation and an option \<^verbatim>\<open>(r)?\<close>; the
  counted repetition \<^verbatim>\<open>r{n}\<close> is \<open>n\<close> copies of \<open>r\<close> in sequence. \<open>rmatch r s\<close>
  lists, in the matcher's order of preference, what is left of \<open>s\<close> after each way
  of matching \<open>r\<close> at its start.\<close>

datatype regex =
    Empty
  | CharRange char char
  | Chr char
  | Seq regex regex
  | Opt regex

fun Times :: "nat \<Rightarrow> regex \<Rightarrow> regex" where
  "Times 0 r = Empty"
| "Times (Suc n) r = Seq r (Times n r)"

fun rmatch :: "regex \<Rightarrow> string \<Rightarrow> string list" where
  "rmatch Empty s = [s]"
| "rmatch (CharRange lo hi) s =
     (case s of [] \<Rightarrow> []
      | c # cs \<Rightarrow> if code_unit lo \<le> code_unit c \<and> code_unit c \<le> code_unit hi then [cs] else [])"
| "rmatch (Chr x) s = (case s of [] \<Rightarrow> [] | c # cs \<Rightarrow> if c = x then [cs] else [])"
| "rmatch (Seq r1 r2) s = concat (map (rmatch r2) (rmatch r1 s))"
| "rmatch (Opt r) s = rmatch r s @ [s]"

text \<open>\<^verbatim>\<open>/^r$/.test(s)\<close>, no flags: \<^verbatim>\<open>^\<close> holds at position 0 only and \<^verbatim>\<open>$\<close> at the end
  of the input only, so the test succeeds when some way of matching \<open>r\<close> from the
  start leaves nothing.\<close>

definition test_anchored :: "regex \<Rightarrow> string \<Rightarrow> bool" where
  "test_anchored r s = list_ex (\<lambda>rest. rest = []) (rmatch r s)"

subsection \<open>isValidLanguageCode\<close>

text \<open>\<^verbatim>\<open>/^[a-z]{2}(-[A-Z]{2})?$/\<close>\<close>

definition language_code_regex :: regex where
  "language_code_regex =
     Seq (Times 2 (CharRange CHR ''a'' CHR ''z''))
         (Opt (Seq (Chr CHR ''-'') (Times 2 (CharRange CHR ''A'' CHR ''Z''))))"

definition isValidLanguageCode :: "string \<Rightarrow> bool" where
  "isValidLanguageCode lang_code = test_anchored language_code_regex lang_code"

text \<open>The shape in the words of the specification: exactly two lowercase letters,
  optionally followed by a hyphen and exactly two uppercase letters.\<close>

definition lowercase_letter :: "char \<Rightarrow> bool" where
  "lowercase_letter c = (c \<in> set ''abcdefghijklmnopqrstuvwxyz'')"

definition uppercase_letter :: "char \<Rightarrow> bool" where
  "uppercase_letter c = (c \<in> set ''ABCDEFGHIJKLMNOPQRSTUVWXYZ'')"

definition language_tag_shape :: "string \<Rightarrow> bool" where
  "language_tag_shape s =
     (case s of
        [a, b] \<Rightarrow> lowercase_letter a \<and> lowercase_letter b
      | [a, b, h, c, d] \<Rightarrow>
          lowercase_letter a \<and> lowercase_letter b \<and> h = CHR ''-'' \<and>
          uppercase_letter c \<and> uppercase_letter d
      | _ \<Rightarrow> False)"

subsection \<open>The environment: URL, navigator, window\<close>

text \<open>
  The module reaches its environment through \<^verbatim>\<open>globalThis\<close>: the \<^verbatim>\<open>URL\<close>
  constructor, \<^verbatim>\<open>navigator\<close> and \<^verbatim>\<open>window\<close>, each of which may be missing. They are
  not code of the module, so the environment is a parameter of every operation.

  A parsed URL carries its components and the list of name-value pairs of its query,
  which is what \<^verbatim>\<open>url.searchParams\<close> reads and writes.
\<close>

record url =
  protocol :: string
  host :: string
  pathname :: string
  searchParams :: "(string \<times> string) list"
  hash :: string

text \<open>\<^verbatim>\<open>URLSearchParams\<close> on the list of pairs, as the URL Standard defines them:
  \<^verbatim>\<open>get\<close> returns the value of the first pair with the name, or null; \<^verbatim>\<open>has\<close> tells
  whether there is such a pair; \<^verbatim>\<open>set\<close> gives the first pair with the name the new
  value and removes the other pairs with that name, or appends a new pair when there is
  none.\<close>

fun searchParams_get :: "(string \<times> string) list \<Rightarrow> string \<Rightarrow> string option" where
  "searchParams_get [] name = None"
| "searchParams_get ((k, v) # ps) name = (if k = name then Some v else searchParams_get ps name)"

fun searchParams_has :: "(string \<times> string) list \<Rightarrow> string \<Rightarrow> bool" where
  "searchParams_has [] name = False"
| "searchParams_has ((k, v) # ps) name = (k = name \<or> searchParams_has ps name)"

fun set_first :: "(string \<times> string) list \<Rightarrow> string \<Rightarrow> string \<Rightarrow> (string \<times> string) list" where
  "set_first [] name val = []"
| "set_first ((k, v) # ps) name val =
     (if k = name then (name, val) # filter (\<lambda>p. fst p \<noteq> name) ps
      else (k, v) # set_first ps name val)"

definition searchParams_set ::
  "(string \<times> string) list \<Rightarrow> string \<Rightarrow> string \<Rightarrow> (string \<times> string) list" where
  "searchParams_set ps name val =
     (if searchParams_has ps name then set_first ps name val else ps @ [(name, val)])"

text \<open>The \<^verbatim>\<open>URL\<close> surface: \<open>construct\<close> is \<^verbatim>\<open>new URL(s)\<close>, which throws on a string
  that is not a URL (\<open>Inl\<close> the error); \<open>toString\<close> is \<^verbatim>\<open>url.toString()\<close>.\<close>

record url_api =
  construct :: "string \<Rightarrow> js_error + url"
  toString :: "url \<Rightarrow> string"

text \<open>\<^verbatim>\<open>navigator\<close> and \<^verbatim>\<open>window\<close> are read as \<^verbatim>\<open>(globalThis as any).navigator\<close> and
  \<^verbatim>\<open>(globalThis as any).window\<close>, untyped: a surface that is present need not have the
  fields the module uses. A field that is missing (\<^verbatim>\<open>undefined\<close>) is \<^term>\<open>None\<close>. The
  field \<open>nav_language\<close> is \<^verbatim>\<open>navigator.language\<close>; \<open>location\<close> is \<^verbatim>\<open>window.location\<close>, an
  object with the field \<open>href\<close>.\<close>

record navigator_surface =
  userAgent :: "string option"
  nav_language :: "string option"

record location_surface =
  href :: string

record window_surface =
  location :: "location_surface option"

record env =
  URL :: "url_api option"
  navigator :: "navigator_surface option"
  window :: "window_surface option"

subsection \<open>enhanceCheckoutUrl\<close>

record CheckoutUrlOptions =
  language :: "string option"
  additionalParams :: "(string \<times> string) list option"
  preserveExisting :: "bool option"

text \<open>\<^verbatim>\<open>{}\<close>, the default value of the parameter \<^verbatim>\<open>options\<close>.\<close>

definition no_options :: CheckoutUrlOptions where
  "no_options = \<lparr>language = None, additionalParams = None, preserveExisting = None\<rparr>"

text \<open>\<^verbatim>\<open>if (language) { url.searchParams.set('lang', language); }\<close>\<close>

definition add_language :: "string option \<Rightarrow> url \<Rightarrow> url" where
  "add_language lang u =
     (case lang of
        None \<Rightarrow> u
      | Some l \<Rightarrow>
          if l \<noteq> [] then u\<lparr>searchParams := searchParams_set (searchParams u) ''lang'' l\<rparr>
          else u)"

text \<open>The callback of \<^verbatim>\<open>Object.entries(additionalParams).forEach\<close>, on one entry.\<close>

definition add_param :: "bool \<Rightarrow> url \<Rightarrow> string \<times> string \<Rightarrow> url" where
  "add_param preserve u entry =
     (if preserve \<or> \<not> searchParams_has (searchParams u) (fst entry)
      then u\<lparr>searchParams := searchParams_set (searchParams u) (fst entry) (snd entry)\<rparr>
      else u)"

text \<open>The body of the \<^verbatim>\<open>try\<close> block. The entries of \<^verbatim>\<open>additionalParams\<close> are visited
  in the order of \<^verbatim>\<open>Object.entries\<close>.\<close>

definition enhance_try ::
  "env \<Rightarrow> string \<Rightarrow> string option \<Rightarrow> (string \<times> string) list \<Rightarrow> bool \<Rightarrow> string outcome" where
  "enhance_try e checkoutUrl lang params preserve =
     (case URL e of
        None \<Rightarrow> Returns checkoutUrl
      | Some URLConstructor \<Rightarrow>
          (case construct URLConstructor checkoutUrl of
             Inl err \<Rightarrow> Throws err
           | Inr u \<Rightarrow>
               Returns (toString URLConstructor
                 (foldl (add_param preserve) (add_language lang u) params))))"

definition enhanceCheckoutUrl ::
  "env \<Rightarrow> string option \<Rightarrow> CheckoutUrlOptions \<Rightarrow> string option outcome" where
  "enhanceCheckoutUrl e checkoutUrl options =
     (case checkoutUrl of
        None \<Rightarrow> Returns None
      | Some s \<Rightarrow>
          if s = [] then Returns None
          else
            (case enhance_try e s (language options)
                    (case additionalParams options of None \<Rightarrow> [] | Some ps \<Rightarrow> ps)
                    (case preserveExisting options of None \<Rightarrow> True | Some b \<Rightarrow> b) of
               Returns r \<Rightarrow> Returns (Some r)
             | Throws err \<Rightarrow> Returns (Some s)))"

subsection \<open>extractLanguageFromUrl\<close>

definition extract_try :: "env \<Rightarrow> string \<Rightarrow> string option outcome" where
  "extract_try e checkoutUrl =
     (case URL e of
        None \<Rightarrow> Returns None
      | Some URLConstructor \<Rightarrow>
          (case construct URLConstructor checkoutUrl of
             Inl err \<Rightarrow> Throws err
           | Inr u \<Rightarrow>
               Returns (js_or (js_or (searchParams_get (searchParams u) ''lang'')
                                     (searchParams_get (searchParams u) ''language''))
                              (searchParams_get (searchParams u) ''locale''))))"

definition extractLanguageFromUrl :: "env \<Rightarrow> string \<Rightarrow> string option outcome" where
  "extractLanguageFromUrl e checkoutUrl =
     (case extract_try e checkoutUrl of
        Returns r \<Rightarrow> Returns r
      | Throws err \<Rightarrow> Returns None)"

subsection \<open>BrowserUtils\<close>

text \<open>\<^verbatim>\<open>nav.userAgent.toLowerCase()\<close> is not guarded: on a navigator without
  \<^verbatim>\<open>userAgent\<close> the property read of \<^verbatim>\<open>undefined\<close> throws a TypeError.\<close>

definition isChromium :: "env \<Rightarrow> bool outcome" where
  "isChromium e =
     (case navigator e of
        None \<Rightarrow> Returns False
      | Some nav \<Rightarrow>
          (case userAgent nav of
             None \<Rightarrow> Throws (TypeError ''Cannot read properties of undefined (reading toLowerCase)'')
           | Some agent \<Rightarrow>
               (let ua = toLowerCase agent in
                Returns (includes_str ua ''chrome'' \<or> includes_str ua ''chromium''
                         \<or> includes_str ua ''edge''))))"

definition isFirefox :: "env \<Rightarrow> bool outcome" where
  "isFirefox e =
     (case navigator e of
        None \<Rightarrow> Returns False
      | Some nav \<Rightarrow>
          (case userAgent nav of
             None \<Rightarrow> Throws (TypeError ''Cannot read properties of undefined (reading toLowerCase)'')
           | Some agent \<Rightarrow> Returns (includes_str (toLowerCase agent) ''firefox'')))"

definition needsLanguageWorkaround :: "env \<Rightarrow> bool outcome" where
  "needsLanguageWorkaround e = isChromium e"

text \<open>\<^verbatim>\<open>nav.language ? nav.language.split('-')[0] : 'en'\<close>: here the field is tested
  before it is used.\<close>

definition getPreferredLanguage :: "env \<Rightarrow> string" where
  "getPreferredLanguage e =
     (case navigator e of
        None \<Rightarrow> ''en''
      | Some nav \<Rightarrow>
          (case nav_language nav of
             None \<Rightarrow> ''en''
           | Some l \<Rightarrow> if l \<noteq> [] then takeWhile (\<lambda>c. c \<noteq> CHR ''-'') l else ''en''))"

subsection \<open>Occurrence of a marker, ignoring case\<close>



subsection \<open>redirectToCheckout and getIframeSafeCheckoutUrl\<close>

text \<open>The assignment \<^verbatim>\<open>win.location.href = enhancedUrl\<close> is the only effect of the
  module; the operation returns the environment after it. On a window without
  \<^verbatim>\<open>location\<close> the assignment throws a TypeError.\<close>

definition redirectToCheckout :: "env \<Rightarrow> string \<Rightarrow> string option \<Rightarrow> env outcome" where
  "redirectToCheckout e checkoutUrl lang =
     (case window e of
        None \<Rightarrow> Throws (Error ''redirectToCheckout can only be used in browser environment'')
      | Some win \<Rightarrow>
          (case enhanceCheckoutUrl e (Some checkoutUrl)
                  (if truthy lang then no_options\<lparr>language := lang\<rparr> else no_options) of
             Throws err \<Rightarrow> Throws err
           | Returns None \<Rightarrow> Returns e
           | Returns (Some enhancedUrl) \<Rightarrow>
               if enhancedUrl \<noteq> []
               then (case location win of
                       None \<Rightarrow> Throws (TypeError ''Cannot set properties of undefined (setting href)'')
                     | Some loc \<Rightarrow>
                         Returns (e\<lparr>window := Some (win\<lparr>location := Some (loc\<lparr>href := enhancedUrl\<rparr>)\<rparr>)\<rparr>))
               else Returns e))"

definition getIframeSafeCheckoutUrl ::
  "env \<Rightarrow> string option \<Rightarrow> string option \<Rightarrow> string option outcome" where
  "getIframeSafeCheckoutUrl e checkoutUrl lang =
     enhanceCheckoutUrl e checkoutUrl
       (if truthy lang
        then \<lparr>language = lang, additionalParams = Some [(''embedded'', ''true'')],
              preserveExisting = None\<rparr>
        else \<lparr>language = None, additionalParams = Some [(''embedded'', ''true'')],
              preserveExisting = None\<rparr>)"

subsection \<open>The exported operations\<close>

text \<open>One call of an exported operation, and what it gives back: the value returned,
  or the error thrown. \<^verbatim>\<open>redirectToCheckout\<close> returns nothing.\<close>

datatype call =
    EnhanceCheckoutUrl "string option" CheckoutUrlOptions
  | ExtractLanguageFromUrl string
  | IsValidLanguageCode string
  | IsChromium
  | IsFirefox
  | NeedsLanguageWorkaround
  | GetPreferredLanguage
  | RedirectToCheckout string "string option"
  | GetIframeSafeCheckoutUrl "string option" "string option"

datatype js_value = Undefined | Boolean bool | StringOrNull "string option"

fun returned :: "('a \<Rightarrow> js_value) \<Rightarrow> 'a outcome \<Rightarrow> js_value outcome" where
  "returned f (Returns x) = Returns (f x)"
| "returned f (Throws err) = Throws err"

fun invoke :: "env \<Rightarrow> call \<Rightarrow> js_value outcome" where
  "invoke e (EnhanceCheckoutUrl checkoutUrl options) =
     returned StringOrNull (enhanceCheckoutUrl e checkoutUrl options)"
| "invoke e (ExtractLanguageFromUrl checkoutUrl) =
     returned StringOrNull (extractLanguageFromUrl e checkoutUrl)"
| "invoke e (IsValidLanguageCode lang_code) = Returns (Boolean (isValidLanguageCode lang_code))"
| "invoke e IsChromium = returned Boolean (isChromium e)"
| "invoke e IsFirefox = returned Boolean (isFirefox e)"
| "invoke e NeedsLanguageWorkaround = returned Boolean (needsLanguageWorkaround e)"
| "invoke e GetPreferredLanguage = Returns (StringOrNull (Some (getPreferredLanguage e)))"
| "invoke e (RedirectToCheckout checkoutUrl lang) =
     returned (\<lambda>e'. Undefined) (redirectToCheckout e checkoutUrl lang)"
| "invoke e (GetIframeSafeCheckoutUrl checkoutUrl lang) =
     returned StringOrNull (getIframeSafeCheckoutUrl e checkoutUrl lang)"

fun is_redirect :: "call \<Rightarrow> bool" where
  "is_redirect (RedirectToCheckout checkoutUrl lang) = True"
| "is_redirect c = False"

subsection \<open>A reference environment\<close>

text \<open>
  A small environment on which the operations can be run: its \<^verbatim>\<open>URL\<close> reads plain
  absolute URLs \<^verbatim>\<open>scheme://host/path?query#fragment\<close> (a lowercase scheme, a
  non-empty host without spaces, nothing that needs percent-encoding) and writes them
  back the same way; on these it agrees with a browser. Every other string is
  rejected.
\<close>

fun split_at :: "string \<Rightarrow> string \<Rightarrow> (string \<times> string) option" where
  "split_at sep [] = None"
| "split_at sep (c # s) =
     (if startsWith (c # s) sep then Some ([], drop (length sep) (c # s))
      else (case split_at sep s of None \<Rightarrow> None | Some (a, b) \<Rightarrow> Some (c # a, b)))"

fun fields :: "char \<Rightarrow> string \<Rightarrow> string list" where
  "fields sep [] = [[]]"
| "fields sep (c # s) =
     (if c = sep then [] # fields sep s
      else (case fields sep s of [] \<Rightarrow> [[c]] | f # fs \<Rightarrow> (c # f) # fs))"

definition parse_query :: "string \<Rightarrow> (string \<times> string) list" where
  "parse_query q =
     map (\<lambda>f. (takeWhile (\<lambda>c. c \<noteq> CHR ''='') f, drop 1 (dropWhile (\<lambda>c. c \<noteq> CHR ''='') f)))
         (filter (\<lambda>f. f \<noteq> []) (fields CHR ''&'' q))"

fun join_amp :: "string list \<Rightarrow> string" where
  "join_amp [] = []"
| "join_amp [x] = x"
| "join_amp (x # y # xs) = x @ ''&'' @ join_amp (y # xs)"

definition serialize_query :: "(string \<times> string) list \<Rightarrow> string" where
  "serialize_query ps = join_amp (map (\<lambda>p. fst p @ ''='' @ snd p) ps)"

definition ref_construct :: "string \<Rightarrow> js_error + url" where
  "ref_construct s =
     (case split_at ''://'' s of
        None \<Rightarrow> Inl (TypeError ''Invalid URL'')
      | Some (scheme, rest) \<Rightarrow>
          (let before_hash = takeWhile (\<lambda>c. c \<noteq> CHR ''#'') rest;
               fragment = dropWhile (\<lambda>c. c \<noteq> CHR ''#'') rest;
               before_query = takeWhile (\<lambda>c. c \<noteq> CHR ''?'') before_hash;
               query = drop 1 (dropWhile (\<lambda>c. c \<noteq> CHR ''?'') before_hash);
               authority = takeWhile (\<lambda>c. c \<noteq> CHR ''/'') before_query;
               path = dropWhile (\<lambda>c. c \<noteq> CHR ''/'') before_query
           in if scheme \<noteq> [] \<and> list_all lowercase_letter scheme \<and> authority \<noteq> []
                 \<and> CHR '' '' \<notin> set s
              then Inr \<lparr>protocol = scheme @ '':'', host = authority,
                        pathname = (if path = [] then ''/'' else path),
                        searchParams = parse_query query, hash = fragment\<rparr>
              else Inl (TypeError ''Invalid URL'')))"

definition ref_toString :: "url \<Rightarrow> string" where
  "ref_toString u =
     protocol u @ ''//'' @ host u @ pathname u @
     (if searchParams u = [] then [] else ''?'' @ serialize_query (searchParams u)) @
     hash u"

definition ref_URL :: url_api where
  "ref_URL = \<lparr>construct = ref_construct, toString = ref_toString\<rparr>"


definition server_env :: env where
  "server_env = \<lparr>URL = Some ref_URL, navigator = None, window = None\<rparr>"

definition empty_objects_env :: env where
  "empty_objects_env =
     \<lparr>URL = Some ref_URL,
      navigator = Some \<lparr>userAgent = None, nav_language = None\<rparr>,
      window = Some \<lparr>location = None\<rparr>\<rparr>"

text \<open>The environments in which a navigator that is present has a \<^verbatim>\<open>userAgent\<close> and a
  window that is present has a \<^verbatim>\<open>location\<close>: the shape of the module's
  \<^verbatim>\<open>declare const\<close> lines.\<close>

definition declared_shape :: "env \<Rightarrow> bool" where
  "declared_shape e =
     ((case navigator e of None \<Rightarrow> True | Some nav \<Rightarrow> userAgent nav \<noteq> None)
      \<and> (case window e of None \<Rightarrow> True | Some win \<Rightarrow> location win \<noteq> None))"

section \<open>Properties\<close>

subsection \<open>Letters and character ranges\<close>

lemma inj_code_unit: "inj code_unit"
  by (rule injI) (simp add: code_unit_def)

lemma mem_via_code_unit: "(c \<in> set cs) = (code_unit c \<in> set (map code_unit cs))"
  using inj_image_mem_iff [OF inj_code_unit, of c "set cs"] by simp

lemma lowercase_range:
  "(code_unit CHR ''a'' \<le> code_unit c \<and> code_unit c \<le> code_unit CHR ''z'') = lowercase_letter c"
proof -
  have codes: "map code_unit ''abcdefghijklmnopqrstuvwxyz'' = [97..<123]"
    by (simp add: code_unit_def upt_rec)
  have "lowercase_letter c = (code_unit c \<in> set [97..<123])"
    unfolding lowercase_letter_def by (subst mem_via_code_unit) (simp only: codes)
  also have "\<dots> = (97 \<le> code_unit c \<and> code_unit c \<le> 122)"
    by (simp only: set_upt atLeastLessThan_iff) arith
  finally show ?thesis by (simp add: code_unit_def)
qed

lemma uppercase_range:
  "(code_unit CHR ''A'' \<le> code_unit c \<and> code_unit c \<le> code_unit CHR ''Z'') = uppercase_letter c"
proof -
  have codes: "map code_unit ''ABCDEFGHIJKLMNOPQRSTUVWXYZ'' = [65..<91]"
    by (simp add: code_unit_def upt_rec)
  have "uppercase_letter c = (code_unit c \<in> set [65..<91])"
    unfolding uppercase_letter_def by (subst mem_via_code_unit) (simp only: codes)
  also have "\<dots> = (65 \<le> code_unit c \<and> code_unit c \<le> 90)"
    by (simp only: set_upt atLeastLessThan_iff) arith
  finally show ?thesis by (simp add: code_unit_def)
qed

lemma rmatch_lower:
  "rmatch (CharRange CHR ''a'' CHR ''z'') s =
     (case s of [] \<Rightarrow> [] | c # cs \<Rightarrow> if lowercase_letter c then [cs] else [])"
  by (simp only: rmatch.simps lowercase_range)

lemma rmatch_upper:
  "rmatch (CharRange CHR ''A'' CHR ''Z'') s =
     (case s of [] \<Rightarrow> [] | c # cs \<Rightarrow> if uppercase_letter c then [cs] else [])"
  by (simp only: rmatch.simps uppercase_range)

lemma regex_accepts_shape: "test_anchored language_code_regex s = language_tag_shape s"
  unfolding test_anchored_def language_code_regex_def language_tag_shape_def
  by (simp add: numeral_2_eq_2 rmatch_lower rmatch_upper del: rmatch.simps(2) split: list.splits)

subsection \<open>Facts about the query pairs\<close>

lemma has_iff_get: "searchParams_has ps n = (searchParams_get ps n \<noteq> None)"
  by (induction ps n rule: searchParams_get.induct) auto

lemma has_iff_filter: "searchParams_has ps n = (filter (\<lambda>p. fst p = n) ps \<noteq> [])"
  by (induction ps n rule: searchParams_has.induct) auto

lemma get_via_filter:
  "searchParams_get ps n = (case filter (\<lambda>p. fst p = n) ps of [] \<Rightarrow> None | p # rest \<Rightarrow> Some (snd p))"
  by (induction ps n rule: searchParams_get.induct) auto

lemma filter_set_first_same:
  "searchParams_has ps n \<Longrightarrow> filter (\<lambda>p. fst p = n) (set_first ps n v) = [(n, v)]"
  by (induction ps n v rule: set_first.induct) (auto simp: filter_empty_conv)

lemma filter_set_first_other:
  "m \<noteq> n \<Longrightarrow> filter (\<lambda>p. fst p = m) (set_first ps n v) = filter (\<lambda>p. fst p = m) ps"
proof (induction ps n v rule: set_first.induct)
  case (1 name val)
  then show ?case by simp
next
  case (2 k w ps name val)
  have "filter (\<lambda>p. fst p = m) (filter (\<lambda>p. fst p \<noteq> name) ps) = filter (\<lambda>p. fst p = m) ps"
    using 2 by (auto intro: filter_cong)
  with 2 show ?case by auto
qed

lemma filter_set_same: "filter (\<lambda>p. fst p = n) (searchParams_set ps n v) = [(n, v)]"
  by (simp add: searchParams_set_def filter_set_first_same has_iff_filter [symmetric])
     (simp add: has_iff_filter)

lemma filter_set_other:
  "m \<noteq> n \<Longrightarrow> filter (\<lambda>p. fst p = m) (searchParams_set ps n v) = filter (\<lambda>p. fst p = m) ps"
  by (simp add: searchParams_set_def filter_set_first_other)

lemma get_set_same: "searchParams_get (searchParams_set ps n v) n = Some v"
  by (simp add: get_via_filter filter_set_same)

lemma get_set_other: "m \<noteq> n \<Longrightarrow> searchParams_get (searchParams_set ps n v) m = searchParams_get ps m"
  by (simp add: get_via_filter filter_set_other)

lemma has_set_other: "m \<noteq> n \<Longrightarrow> searchParams_has (searchParams_set ps n v) m = searchParams_has ps m"
  by (simp add: has_iff_filter filter_set_other)


subsection \<open>Substrings\<close>




subsection \<open>Folding the additional parameters\<close>

lemma add_param_other:
  "k \<noteq> fst entry \<Longrightarrow>
   filter (\<lambda>p. fst p = k) (searchParams (add_param preserve u entry)) =
   filter (\<lambda>p. fst p = k) (searchParams u)"
  by (simp add: add_param_def filter_set_other)

lemma add_param_same:
  "filter (\<lambda>p. fst p = k) (searchParams (add_param preserve u (k, v))) =
   (if preserve \<or> \<not> searchParams_has (searchParams u) k then [(k, v)]
    else filter (\<lambda>p. fst p = k) (searchParams u))"
  by (simp add: add_param_def filter_set_same)

lemma foldl_add_param_other:
  "k \<notin> fst ` set ps \<Longrightarrow>
   filter (\<lambda>p. fst p = k) (searchParams (foldl (add_param preserve) u ps)) =
   filter (\<lambda>p. fst p = k) (searchParams u)"
  by (induction ps arbitrary: u) (auto simp: add_param_other)

lemma foldl_add_param_entry:
  assumes "distinct (map fst ps)" and "(k, v) \<in> set ps"
  shows "filter (\<lambda>p. fst p = k) (searchParams (foldl (add_param preserve) u ps)) =
         (if preserve \<or> \<not> searchParams_has (searchParams u) k then [(k, v)]
          else filter (\<lambda>p. fst p = k) (searchParams u))"
  using assms
proof (induction ps arbitrary: u)
  case Nil
  then show ?case by simp
next
  case (Cons entry ps)
  show ?case
  proof (cases "entry = (k, v)")
    case True
    with Cons.prems have "k \<notin> fst ` set ps" by auto
    then show ?thesis
      using True by (simp add: foldl_add_param_other add_param_same)
  next
    case False
    with Cons.prems have later: "(k, v) \<in> set ps" and dist: "distinct (map fst ps)"
      and other: "k \<noteq> fst entry"
      by (auto simp: image_iff)
    have "searchParams_has (searchParams (add_param preserve u entry)) k =
          searchParams_has (searchParams u) k"
      using other by (simp add: has_iff_filter add_param_other)
    then show ?thesis
      using Cons.IH [OF dist later, of "add_param preserve u entry"] other
      by (simp add: add_param_other)
  qed
qed

lemma add_language_other:
  "k \<noteq> ''lang'' \<or> \<not> truthy lang \<Longrightarrow>
   filter (\<lambda>p. fst p = k) (searchParams (add_language lang u)) =
   filter (\<lambda>p. fst p = k) (searchParams u)"
  by (auto simp: add_language_def truthy_def filter_set_other split: option.splits)

lemma add_language_lang:
  "truthy lang \<Longrightarrow>
   filter (\<lambda>p. fst p = ''lang'') (searchParams (add_language lang u)) = [(''lang'', the lang)]"
  by (auto simp: add_language_def truthy_def filter_set_same split: option.splits)

lemma add_language_components:
  "protocol (add_language lang u) = protocol u \<and> host (add_language lang u) = host u
   \<and> pathname (add_language lang u) = pathname u \<and> hash (add_language lang u) = hash u"
  by (simp add: add_language_def split: option.splits)

subsection \<open>The operations on a parsed and on an unparsed URL\<close>

lemma enhance_parsed:
  assumes "URL e = Some api" and "construct api s = Inr u" and "s \<noteq> []"
  shows "enhanceCheckoutUrl e (Some s) options =
         Returns (Some (toString api
           (foldl (add_param (case preserveExisting options of None \<Rightarrow> True | Some b \<Rightarrow> b))
                  (add_language (language options) u)
                  (case additionalParams options of None \<Rightarrow> [] | Some ps \<Rightarrow> ps))))"
  using assms by (simp add: enhanceCheckoutUrl_def enhance_try_def)

lemma enhance_unparsed:
  assumes "URL e = None \<or> (\<exists>api err. URL e = Some api \<and> construct api s = Inl err)" and "s \<noteq> []"
  shows "enhanceCheckoutUrl e (Some s) options = Returns (Some s)"
  using assms by (auto simp: enhanceCheckoutUrl_def enhance_try_def)

lemma enhance_returns: "\<exists>r. enhanceCheckoutUrl e x options = Returns r"
  by (simp add: enhanceCheckoutUrl_def split: option.splits outcome.splits)

lemma extract_parsed:
  assumes "URL e = Some api" and "construct api s = Inr u"
  shows "extractLanguageFromUrl e s =
         Returns (js_or (js_or (searchParams_get (searchParams u) ''lang'')
                               (searchParams_get (searchParams u) ''language''))
                        (searchParams_get (searchParams u) ''locale''))"
  using assms by (simp add: extractLanguageFromUrl_def extract_try_def)

lemma extract_unparsed:
  assumes "URL e = None \<or> (\<exists>api err. URL e = Some api \<and> construct api s = Inl err)"
  shows "extractLanguageFromUrl e s = Returns None"
  using assms by (auto simp: extractLanguageFromUrl_def extract_try_def)

lemma extract_returns: "\<exists>r. extractLanguageFromUrl e s = Returns r"
  by (simp add: extractLanguageFromUrl_def split: outcome.splits)

lemma iframe_options:
  "getIframeSafeCheckoutUrl e x lang =
     enhanceCheckoutUrl e x
       \<lparr>language = (if truthy lang then lang else None),
        additionalParams = Some [(''embedded'', ''true'')], preserveExisting = None\<rparr>"
  by (simp add: getIframeSafeCheckoutUrl_def)

lemma iframe_returns: "\<exists>r. getIframeSafeCheckoutUrl e x lang = Returns r"
  using enhance_returns by (simp add: iframe_options)

lemma redirect_no_window:
  "window e = None \<Longrightarrow>
   redirectToCheckout e s lang =
     Throws (Error ''redirectToCheckout can only be used in browser environment'')"
  by (simp add: redirectToCheckout_def)

lemma redirect_window:
  assumes "window e = Some win" and "location win = Some loc"
  shows "\<exists>e'. redirectToCheckout e s lang = Returns e'"
proof -
  obtain r where "enhanceCheckoutUrl e (Some s)
      (if truthy lang then no_options\<lparr>language := lang\<rparr> else no_options) = Returns r"
    using enhance_returns by blast
  then show ?thesis
    using assms by (cases r) (simp_all add: redirectToCheckout_def)
qed

lemma redirect_unsupported_iff:
  "(redirectToCheckout e s lang =
      Throws (Error ''redirectToCheckout can only be used in browser environment''))
   = (window e = None)"
proof (cases "window e")
  case None
  then show ?thesis by (simp add: redirect_no_window)
next
  case (Some win)
  obtain r where "enhanceCheckoutUrl e (Some s)
      (if truthy lang then no_options\<lparr>language := lang\<rparr> else no_options) = Returns r"
    using enhance_returns by blast
  then show ?thesis
    using Some by (cases r) (simp_all add: redirectToCheckout_def split: option.splits)
qed

lemma browserutils_declared_shape:
  assumes "declared_shape e"
  shows "(\<exists>b. isChromium e = Returns b) \<and> (\<exists>b. isFirefox e = Returns b)
         \<and> (\<exists>b. needsLanguageWorkaround e = Returns b)"
  using assms
  by (auto simp: declared_shape_def isChromium_def isFirefox_def needsLanguageWorkaround_def
      Let_def split: option.splits)

subsection \<open>What the reference environment parses\<close>

lemma parse_abc:
  "ref_construct ''https://pay.example/c/abc'' =
     Inr \<lparr>protocol = ''https:'', host = ''pay.example'', pathname = ''/c/abc'',
          searchParams = [], hash = []\<rparr>"
  by code_simp

lemma parse_abc_fr:
  "ref_construct ''https://pay.example/c/abc?lang=fr'' =
     Inr \<lparr>protocol = ''https:'', host = ''pay.example'', pathname = ''/c/abc'',
          searchParams = [(''lang'', ''fr'')], hash = []\<rparr>"
  by code_simp

lemma parse_abc_de:
  "ref_construct ''https://pay.example/c/abc?lang=de'' =
     Inr \<lparr>protocol = ''https:'', host = ''pay.example'', pathname = ''/c/abc'',
          searchParams = [(''lang'', ''de'')], hash = []\<rparr>"
  by code_simp

lemma parse_foo_bar:
  "ref_construct ''https://pay.example/c/abc?foo=bar'' =
     Inr \<lparr>protocol = ''https:'', host = ''pay.example'', pathname = ''/c/abc'',
          searchParams = [(''foo'', ''bar'')], hash = []\<rparr>"
  by code_simp

lemma parse_es_fr:
  "ref_construct ''https://pay.example/c/abc?language=es&locale=fr'' =
     Inr \<lparr>protocol = ''https:'', host = ''pay.example'', pathname = ''/c/abc'',
          searchParams = [(''language'', ''es''), (''locale'', ''fr'')], hash = []\<rparr>"
  by code_simp

lemma parse_not_a_url: "ref_construct ''not a url'' = Inl (TypeError ''Invalid URL'')"
  by code_simp

subsection \<open>enhanceCheckoutUrl: the language parameter\<close>

text \<open>
  C1 (amended). For every URL string that parses successfully and every non-empty
  language string, \<^verbatim>\<open>enhanceCheckoutUrl(url, {language})\<close> returns a URL string whose
  \<^verbatim>\<open>lang\<close> query parameter equals that language, overwriting any existing \<^verbatim>\<open>lang\<close>
  value, and whose scheme, host and path are unchanged from the input. For the empty
  language string it returns the URL with its query as it was. The URL returned is
  given as the URL that the environment serialises.
\<close>

theorem enhanceCheckoutUrl_sets_lang:
  assumes "URL e = Some api" and "construct api s = Inr u" and "s \<noteq> []"
  shows "(l \<noteq> [] \<longrightarrow>
           (\<exists>u'. enhanceCheckoutUrl e (Some s) (no_options\<lparr>language := Some l\<rparr>)
                   = Returns (Some (toString api u'))
                \<and> searchParams_get (searchParams u') ''lang'' = Some l
                \<and> filter (\<lambda>p. fst p = ''lang'') (searchParams u') = [(''lang'', l)]
                \<and> protocol u' = protocol u \<and> host u' = host u \<and> pathname u' = pathname u))
         \<and> enhanceCheckoutUrl e (Some s) (no_options\<lparr>language := Some []\<rparr>)
             = Returns (Some (toString api u))"
proof -
  let ?u' = "u\<lparr>searchParams := searchParams_set (searchParams u) ''lang'' l\<rparr>"
  have given: "\<exists>u'. enhanceCheckoutUrl e (Some s) (no_options\<lparr>language := Some l\<rparr>)
                   = Returns (Some (toString api u'))
                \<and> searchParams_get (searchParams u') ''lang'' = Some l
                \<and> filter (\<lambda>p. fst p = ''lang'') (searchParams u') = [(''lang'', l)]
                \<and> protocol u' = protocol u \<and> host u' = host u \<and> pathname u' = pathname u"
    if "l \<noteq> []"
  proof -
    have "enhanceCheckoutUrl e (Some s) (no_options\<lparr>language := Some l\<rparr>)
            = Returns (Some (toString api ?u'))"
      using assms that by (simp add: enhance_parsed no_options_def add_language_def)
    moreover have "searchParams_get (searchParams ?u') ''lang'' = Some l"
      by (simp add: get_set_same)
    moreover have "filter (\<lambda>p. fst p = ''lang'') (searchParams ?u') = [(''lang'', l)]"
      by (simp add: filter_set_same)
    ultimately show ?thesis by (intro exI [of _ ?u']) simp
  qed
  have empty: "enhanceCheckoutUrl e (Some s) (no_options\<lparr>language := Some []\<rparr>)
      = Returns (Some (toString api u))"
    using assms by (simp add: enhance_parsed no_options_def add_language_def)
  from given empty show ?thesis by blast
qed

theorem enhanceCheckoutUrl_sets_lang_witness:
  "(\<exists>u'. enhanceCheckoutUrl server_env (Some ''https://pay.example/c/abc?lang=fr'')
            (no_options\<lparr>language := Some ''de''\<rparr>) = Returns (Some (ref_toString u'))
       \<and> searchParams_get (searchParams u') ''lang'' = Some ''de''
       \<and> filter (\<lambda>p. fst p = ''lang'') (searchParams u') = [(''lang'', ''de'')]
       \<and> protocol u' = ''https:'' \<and> host u' = ''pay.example'' \<and> pathname u' = ''/c/abc'')
   \<and> enhanceCheckoutUrl server_env (Some ''https://pay.example/c/abc?lang=fr'')
        (no_options\<lparr>language := Some []\<rparr>)
       = Returns (Some (ref_toString
           \<lparr>protocol = ''https:'', host = ''pay.example'', pathname = ''/c/abc'',
            searchParams = [(''lang'', ''fr'')], hash = []\<rparr>))"
  using enhanceCheckoutUrl_sets_lang
    [of server_env ref_URL "''https://pay.example/c/abc?lang=fr''" _ "''de''"]
  by (simp add: server_env_def ref_URL_def parse_abc_fr)

text \<open>
  C1 as stated speaks of every language string. The empty string is falsy, so with
  \<^verbatim>\<open>{language: ""}\<close> the guard \<^verbatim>\<open>if (language)\<close> skips the assignment: the URL comes
  back with its old \<^verbatim>\<open>lang=fr\<close>.
\<close>

theorem enhanceCheckoutUrl_empty_language_counterexample:
  "enhanceCheckoutUrl server_env (Some ''https://pay.example/c/abc?lang=fr'')
     (no_options\<lparr>language := Some []\<rparr>) = Returns (Some ''https://pay.example/c/abc?lang=fr'')
   \<and> ref_construct ''https://pay.example/c/abc?lang=fr'' =
       Inr \<lparr>protocol = ''https:'', host = ''pay.example'', pathname = ''/c/abc'',
            searchParams = [(''lang'', ''fr'')], hash = []\<rparr>
   \<and> searchParams_get [(''lang'', ''fr'')] ''lang'' \<noteq> Some []"
  by code_simp

subsection \<open>enhanceCheckoutUrl: failing soft\<close>

text \<open>
  C2 (amended). \<^verbatim>\<open>enhanceCheckoutUrl\<close> never throws. For an absent \<^verbatim>\<open>checkoutUrl\<close>
  (null or undefined) and for the empty string it returns null; for every non-empty
  string that fails to parse as a URL, or when the environment has no URL parser, it
  returns the input string unchanged.
\<close>

theorem enhanceCheckoutUrl_fail_soft:
  "(\<exists>r. enhanceCheckoutUrl e x options = Returns r)
   \<and> enhanceCheckoutUrl e None options = Returns None
   \<and> enhanceCheckoutUrl e (Some []) options = Returns None
   \<and> (s \<noteq> [] \<longrightarrow>
        (URL e = None \<or> (\<exists>api err. URL e = Some api \<and> construct api s = Inl err)) \<longrightarrow>
        enhanceCheckoutUrl e (Some s) options = Returns (Some s))"
proof -
  have "enhanceCheckoutUrl e None options = Returns None"
    "enhanceCheckoutUrl e (Some []) options = Returns None"
    by (simp_all add: enhanceCheckoutUrl_def)
  then show ?thesis
    using enhance_returns [of e x options] enhance_unparsed [of e s options] by blast
qed

theorem enhanceCheckoutUrl_fail_soft_witness:
  "enhanceCheckoutUrl server_env (Some ''not a url'') no_options = Returns (Some ''not a url'')
   \<and> enhanceCheckoutUrl \<lparr>URL = None, navigator = None, window = None\<rparr>
        (Some ''https://pay.example/c/abc'') no_options = Returns (Some ''https://pay.example/c/abc'')"
proof -
  have "URL server_env = Some ref_URL \<and> construct ref_URL ''not a url'' = Inl (TypeError ''Invalid URL'')"
    by (simp add: server_env_def ref_URL_def parse_not_a_url)
  then show ?thesis
    using enhanceCheckoutUrl_fail_soft [of server_env None no_options "''not a url''"]
      enhanceCheckoutUrl_fail_soft [of "\<lparr>URL = None, navigator = None, window = None\<rparr>" None no_options
        "''https://pay.example/c/abc''"]
    by auto
qed

text \<open>
  C2 as stated returns every unparseable string unchanged. The empty string does not
  parse, but the guard \<^verbatim>\<open>if (!checkoutUrl)\<close> takes it first and the result is null.
\<close>

theorem enhanceCheckoutUrl_empty_string_counterexample:
  "enhanceCheckoutUrl server_env (Some []) no_options = Returns None
   \<and> ref_construct [] = Inl (TypeError ''Invalid URL'')
   \<and> enhanceCheckoutUrl server_env (Some []) no_options \<noteq> Returns (Some [])"
  by code_simp

subsection \<open>extractLanguageFromUrl: the order of the candidates\<close>

text \<open>
  C3 (amended). \<^verbatim>\<open>extractLanguageFromUrl\<close> returns the value of \<^verbatim>\<open>lang\<close> if it is
  present and not empty, otherwise that of \<^verbatim>\<open>language\<close> if present and not empty,
  otherwise that of \<^verbatim>\<open>locale\<close> if present and not empty, in that order of priority.
  It returns null if none of the three is present (more generally, if \<^verbatim>\<open>lang\<close> and
  \<^verbatim>\<open>language\<close> are absent or empty and \<^verbatim>\<open>locale\<close> is absent), and null if the URL
  fails to parse or there is no parser.
\<close>

theorem extractLanguageFromUrl_priority:
  "((URL e = None \<or> (\<exists>api err. URL e = Some api \<and> construct api s = Inl err)) \<longrightarrow>
      extractLanguageFromUrl e s = Returns None)
   \<and> (\<forall>api u v. URL e = Some api \<and> construct api s = Inr u \<longrightarrow>
        (searchParams_get (searchParams u) ''lang'' = Some v \<and> v \<noteq> [] \<longrightarrow>
           extractLanguageFromUrl e s = Returns (Some v))
      \<and> (\<not> truthy (searchParams_get (searchParams u) ''lang'')
          \<and> searchParams_get (searchParams u) ''language'' = Some v \<and> v \<noteq> [] \<longrightarrow>
           extractLanguageFromUrl e s = Returns (Some v))
      \<and> (\<not> truthy (searchParams_get (searchParams u) ''lang'')
          \<and> \<not> truthy (searchParams_get (searchParams u) ''language'')
          \<and> searchParams_get (searchParams u) ''locale'' = Some v \<and> v \<noteq> [] \<longrightarrow>
           extractLanguageFromUrl e s = Returns (Some v))
      \<and> (\<not> truthy (searchParams_get (searchParams u) ''lang'')
          \<and> \<not> truthy (searchParams_get (searchParams u) ''language'')
          \<and> \<not> searchParams_has (searchParams u) ''locale'' \<longrightarrow>
           extractLanguageFromUrl e s = Returns None)
      \<and> (\<not> searchParams_has (searchParams u) ''lang''
          \<and> \<not> searchParams_has (searchParams u) ''language''
          \<and> \<not> searchParams_has (searchParams u) ''locale'' \<longrightarrow>
           extractLanguageFromUrl e s = Returns None))"
proof -
  have fail: "(URL e = None \<or> (\<exists>api err. URL e = Some api \<and> construct api s = Inl err)) \<longrightarrow>
      extractLanguageFromUrl e s = Returns None"
    using extract_unparsed [of e s] by blast
  have first: "extractLanguageFromUrl e s = Returns (Some v)"
    if "URL e = Some api" "construct api s = Inr u"
       "searchParams_get (searchParams u) ''lang'' = Some v" "v \<noteq> []" for api u v
    using that by (simp add: extract_parsed js_or_def truthy_def)
  have second: "extractLanguageFromUrl e s = Returns (Some v)"
    if "URL e = Some api" "construct api s = Inr u"
       "\<not> truthy (searchParams_get (searchParams u) ''lang'')"
       "searchParams_get (searchParams u) ''language'' = Some v" "v \<noteq> []" for api u v
    using that by (simp add: extract_parsed js_or_def truthy_def)
  have third: "extractLanguageFromUrl e s = Returns (Some v)"
    if "URL e = Some api" "construct api s = Inr u"
       "\<not> truthy (searchParams_get (searchParams u) ''lang'')"
       "\<not> truthy (searchParams_get (searchParams u) ''language'')"
       "searchParams_get (searchParams u) ''locale'' = Some v" "v \<noteq> []" for api u v
    using that by (simp add: extract_parsed js_or_def)
  have none: "extractLanguageFromUrl e s = Returns None"
    if "URL e = Some api" "construct api s = Inr u"
       "\<not> truthy (searchParams_get (searchParams u) ''lang'')"
       "\<not> truthy (searchParams_get (searchParams u) ''language'')"
       "\<not> searchParams_has (searchParams u) ''locale''" for api u
    using that by (simp add: extract_parsed js_or_def has_iff_get)
  have absent: "\<not> truthy (searchParams_get ps n)" if "\<not> searchParams_has ps n" for ps n
    using that by (simp add: has_iff_get truthy_def)
  show ?thesis
    using fail first second third none absent by blast
qed

theorem extractLanguageFromUrl_priority_witness:
  "extractLanguageFromUrl server_env ''https://pay.example/c/abc?language=es&locale=fr''
     = Returns (Some ''es'')"
proof -
  let ?u = "\<lparr>protocol = ''https:'', host = ''pay.example'', pathname = ''/c/abc'',
          searchParams = [(''language'', ''es''), (''locale'', ''fr'')], hash = []\<rparr>"
  have "URL server_env = Some ref_URL \<and>
        construct ref_URL ''https://pay.example/c/abc?language=es&locale=fr'' = Inr ?u"
    by (simp add: server_env_def ref_URL_def parse_es_fr)
  moreover have "\<not> truthy (searchParams_get (searchParams ?u) ''lang'')
     \<and> searchParams_get (searchParams ?u) ''language'' = Some ''es'' \<and> ''es'' \<noteq> []"
    by (simp add: truthy_def)
  ultimately show ?thesis
    using extractLanguageFromUrl_priority
      [of server_env "''https://pay.example/c/abc?language=es&locale=fr''"]
    by blast
qed

text \<open>
  C3 as stated returns the value of \<^verbatim>\<open>lang\<close> whenever it is found. In
  \<^verbatim>\<open>?lang=&language=es\<close> the parameter \<^verbatim>\<open>lang\<close> is found, with the empty value, and
  the result is \<^verbatim>\<open>"es"\<close>.
\<close>

theorem extractLanguageFromUrl_empty_lang_counterexample:
  "extractLanguageFromUrl server_env ''https://pay.example/c/abc?lang=&language=es''
     = Returns (Some ''es'')
   \<and> ref_construct ''https://pay.example/c/abc?lang=&language=es'' =
       Inr \<lparr>protocol = ''https:'', host = ''pay.example'', pathname = ''/c/abc'',
            searchParams = [(''lang'', []), (''language'', ''es'')], hash = []\<rparr>
   \<and> searchParams_get [(''lang'', []), (''language'', ''es'')] ''lang'' = Some []"
  by code_simp

subsection \<open>enhanceCheckoutUrl: additional parameters\<close>

text \<open>
  C4. For every parseable URL and every entry \<open>(k, v)\<close> of \<^verbatim>\<open>additionalParams\<close> (an
  object, so its keys are distinct): when \<^verbatim>\<open>preserveExisting\<close> is true or left out, the
  result has the single pair \<open>(k, v)\<close> for \<open>k\<close>, whether or not \<open>k\<close> was there before;
  when it is false, a parameter \<open>k\<close> that is already in the query is left untouched and
  a \<open>k\<close> that is not is added with value \<open>v\<close>. The query is the one at the moment the
  entries are merged, after the language step; for a key other than \<^verbatim>\<open>lang\<close>, or
  without a language, its \<open>k\<close> pairs are those of the input URL.
\<close>

theorem enhanceCheckoutUrl_additionalParams:
  assumes "URL e = Some api" and "construct api s = Inr u" and "s \<noteq> []"
    and "distinct (map fst ps)" and "(k, v) \<in> set ps"
  shows "\<exists>u'. enhanceCheckoutUrl e (Some s)
                 \<lparr>language = lang, additionalParams = Some ps, preserveExisting = pe\<rparr>
                 = Returns (Some (toString api u'))
            \<and> (pe \<noteq> Some False \<longrightarrow>
                 searchParams_get (searchParams u') k = Some v
                 \<and> filter (\<lambda>p. fst p = k) (searchParams u') = [(k, v)])
            \<and> (pe = Some False \<longrightarrow> searchParams_has (searchParams (add_language lang u)) k \<longrightarrow>
                 filter (\<lambda>p. fst p = k) (searchParams u') =
                 filter (\<lambda>p. fst p = k) (searchParams (add_language lang u)))
            \<and> (pe = Some False \<longrightarrow> \<not> searchParams_has (searchParams (add_language lang u)) k \<longrightarrow>
                 searchParams_get (searchParams u') k = Some v
                 \<and> filter (\<lambda>p. fst p = k) (searchParams u') = [(k, v)])
            \<and> (k \<noteq> ''lang'' \<or> \<not> truthy lang \<longrightarrow>
                 filter (\<lambda>p. fst p = k) (searchParams (add_language lang u)) =
                 filter (\<lambda>p. fst p = k) (searchParams u))"
proof -
  let ?preserve = "case pe of None \<Rightarrow> True | Some b \<Rightarrow> b"
  let ?u' = "foldl (add_param ?preserve) (add_language lang u) ps"
  have result: "enhanceCheckoutUrl e (Some s)
      \<lparr>language = lang, additionalParams = Some ps, preserveExisting = pe\<rparr>
      = Returns (Some (toString api ?u'))"
    using assms(1-3) by (simp add: enhance_parsed)
  have pairs: "filter (\<lambda>p. fst p = k) (searchParams ?u') =
      (if ?preserve \<or> \<not> searchParams_has (searchParams (add_language lang u)) k then [(k, v)]
       else filter (\<lambda>p. fst p = k) (searchParams (add_language lang u)))"
    using assms(4,5) by (rule foldl_add_param_entry)
  have overwrite: "pe \<noteq> Some False \<longrightarrow>
      searchParams_get (searchParams ?u') k = Some v
      \<and> filter (\<lambda>p. fst p = k) (searchParams ?u') = [(k, v)]"
    using pairs by (auto simp: get_via_filter split: option.splits)
  have keep: "pe = Some False \<longrightarrow> searchParams_has (searchParams (add_language lang u)) k \<longrightarrow>
      filter (\<lambda>p. fst p = k) (searchParams ?u') =
      filter (\<lambda>p. fst p = k) (searchParams (add_language lang u))"
    using pairs by auto
  have add: "pe = Some False \<longrightarrow> \<not> searchParams_has (searchParams (add_language lang u)) k \<longrightarrow>
      searchParams_get (searchParams ?u') k = Some v
      \<and> filter (\<lambda>p. fst p = k) (searchParams ?u') = [(k, v)]"
    using pairs by (auto simp: get_via_filter)
  have base: "k \<noteq> ''lang'' \<or> \<not> truthy lang \<longrightarrow>
      filter (\<lambda>p. fst p = k) (searchParams (add_language lang u)) =
      filter (\<lambda>p. fst p = k) (searchParams u)"
    using add_language_other [of k lang u] by blast
  from result overwrite keep add base show ?thesis
    by (intro exI [of _ ?u']) (intro conjI)
qed

theorem enhanceCheckoutUrl_additionalParams_witness:
  "(\<exists>u'. enhanceCheckoutUrl server_env (Some ''https://pay.example/c/abc?foo=bar'')
            \<lparr>language = None, additionalParams = Some [(''foo'', ''baz'')],
             preserveExisting = Some False\<rparr> = Returns (Some (ref_toString u'))
         \<and> filter (\<lambda>p. fst p = ''foo'') (searchParams u') = [(''foo'', ''bar'')])
   \<and> (\<exists>u'. enhanceCheckoutUrl server_env (Some ''https://pay.example/c/abc?foo=bar'')
            \<lparr>language = None, additionalParams = Some [(''foo'', ''baz'')],
             preserveExisting = None\<rparr> = Returns (Some (ref_toString u'))
         \<and> filter (\<lambda>p. fst p = ''foo'') (searchParams u') = [(''foo'', ''baz'')])"
proof -
  let ?s = "''https://pay.example/c/abc?foo=bar''"
  let ?u = "\<lparr>protocol = ''https:'', host = ''pay.example'', pathname = ''/c/abc'',
          searchParams = [(''foo'', ''bar'')], hash = []\<rparr>"
  have env: "URL server_env = Some ref_URL" by (simp add: server_env_def)
  have parse: "construct ref_URL ?s = Inr ?u" by (simp add: ref_URL_def parse_foo_bar)
  have entry: "distinct (map fst [(''foo'', ''baz'')])" "(''foo'', ''baz'') \<in> set [(''foo'', ''baz'')]"
    by simp_all
  have base: "searchParams (add_language None ?u) = [(''foo'', ''bar'')]"
    by (simp add: add_language_def)
  show ?thesis
    using enhanceCheckoutUrl_additionalParams [OF env parse _ entry, of None "Some False"]
      enhanceCheckoutUrl_additionalParams [OF env parse _ entry, of None None]
    by (simp add: base ref_URL_def, blast)
qed

subsection \<open>Round trip\<close>

text \<open>
  C5. For every URL string \<open>s\<close> that parses successfully, \<^verbatim>\<open>extractLanguageFromUrl\<close>
  applied to the result of \<^verbatim>\<open>enhanceCheckoutUrl(s, {language: "de"})\<close> returns \<^verbatim>\<open>"de"\<close>.
  The result is re-read by the environment's own parser: the theorem asks of the
  environment that it parses what it has just serialised, with the same query pairs.
\<close>

theorem enhance_extract_roundtrip:
  assumes "URL e = Some api" and "construct api s = Inr u" and "s \<noteq> []"
    and "construct api (toString api (add_language (Some ''de'') u)) = Inr u2"
    and "searchParams u2 = searchParams (add_language (Some ''de'') u)"
  shows "\<exists>r. enhanceCheckoutUrl e (Some s) (no_options\<lparr>language := Some ''de''\<rparr>) = Returns (Some r)
            \<and> extractLanguageFromUrl e r = Returns (Some ''de'')"
proof -
  let ?r = "toString api (add_language (Some ''de'') u)"
  have "enhanceCheckoutUrl e (Some s) (no_options\<lparr>language := Some ''de''\<rparr>) = Returns (Some ?r)"
    using assms(1-3) by (simp add: enhance_parsed no_options_def)
  moreover have "searchParams_get (searchParams u2) ''lang'' = Some ''de''"
    by (simp add: assms(5) add_language_def get_set_same)
  then have "extractLanguageFromUrl e ?r = Returns (Some ''de'')"
    using assms(1,4) by (simp add: extract_parsed js_or_def truthy_def)
  ultimately show ?thesis by blast
qed

theorem enhance_extract_roundtrip_witness:
  "\<exists>r. enhanceCheckoutUrl server_env (Some ''https://pay.example/c/abc?lang=fr'')
          (no_options\<lparr>language := Some ''de''\<rparr>) = Returns (Some r)
       \<and> extractLanguageFromUrl server_env r = Returns (Some ''de'')"
proof -
  let ?u = "\<lparr>protocol = ''https:'', host = ''pay.example'', pathname = ''/c/abc'',
          searchParams = [(''lang'', ''fr'')], hash = []\<rparr>"
  let ?u2 = "\<lparr>protocol = ''https:'', host = ''pay.example'', pathname = ''/c/abc'',
          searchParams = [(''lang'', ''de'')], hash = []\<rparr>"
  have env: "URL server_env = Some ref_URL" by (simp add: server_env_def)
  have parse: "construct ref_URL ''https://pay.example/c/abc?lang=fr'' = Inr ?u"
    by (simp add: ref_URL_def parse_abc_fr)
  have enhanced: "add_language (Some ''de'') ?u = ?u2"
    by (simp add: add_language_def searchParams_set_def)
  have "ref_toString ?u2 = ''https://pay.example/c/abc?lang=de''"
    by (simp add: ref_toString_def serialize_query_def)
  then have reparse: "construct ref_URL (toString ref_URL (add_language (Some ''de'') ?u)) = Inr ?u2"
    by (simp add: enhanced ref_URL_def parse_abc_de)
  have same: "searchParams ?u2 = searchParams (add_language (Some ''de'') ?u)"
    by (simp add: enhanced)
  show ?thesis
    using enhance_extract_roundtrip [OF env parse _ reparse same] by simp
qed

subsection \<open>isValidLanguageCode\<close>

text \<open>
  C6. For every string \<open>s\<close>, \<^verbatim>\<open>isValidLanguageCode(s)\<close> is true exactly when \<open>s\<close> is two
  lowercase letters, optionally followed by a hyphen and two uppercase letters. It is
  false for the empty string, for \<^verbatim>\<open>"EN"\<close> and for \<^verbatim>\<open>"eng"\<close>, and true for \<^verbatim>\<open>"de"\<close>
  and \<^verbatim>\<open>"en-US"\<close>.
\<close>

theorem isValidLanguageCode_iff_shape:
  "isValidLanguageCode s = language_tag_shape s
   \<and> \<not> isValidLanguageCode [] \<and> \<not> isValidLanguageCode ''EN'' \<and> \<not> isValidLanguageCode ''eng''
   \<and> isValidLanguageCode ''de'' \<and> isValidLanguageCode ''en-US''"
proof -
  have general: "\<And>t. isValidLanguageCode t = language_tag_shape t"
    by (simp add: isValidLanguageCode_def regex_accepts_shape)
  have "\<not> language_tag_shape []" "\<not> language_tag_shape ''EN''" "\<not> language_tag_shape ''eng''"
    "language_tag_shape ''de''" "language_tag_shape ''en-US''"
    by (simp_all add: language_tag_shape_def lowercase_letter_def uppercase_letter_def)
  then show ?thesis by (simp add: general)
qed

theorem isValidLanguageCode_iff_shape_witness:
  "isValidLanguageCode ''pt-BR'' \<and> language_tag_shape ''pt-BR''
   \<and> \<not> isValidLanguageCode ''pt-br'' \<and> \<not> language_tag_shape ''pt-br''"
proof -
  have "isValidLanguageCode ''pt-BR''" "\<not> isValidLanguageCode ''pt-br''"
    by code_simp+
  then show ?thesis
    using isValidLanguageCode_iff_shape [of "''pt-BR''"] isValidLanguageCode_iff_shape [of "''pt-br''"]
    by simp
qed

subsection \<open>getIframeSafeCheckoutUrl\<close>

text \<open>
  C7. For every parseable checkout URL, \<^verbatim>\<open>getIframeSafeCheckoutUrl\<close> sets
  \<^verbatim>\<open>embedded=true\<close> in the result, and sets \<^verbatim>\<open>lang\<close> to the language when one is
  supplied (a truthy one: the function has its own guard \<^verbatim>\<open>if (language)\<close>); scheme,
  host and path stay. For an absent input the result is null, and for an unparseable
  one it is what \<^verbatim>\<open>enhanceCheckoutUrl\<close> gives: the original string, or null for the
  empty string.
\<close>

theorem getIframeSafeCheckoutUrl_embedded:
  "getIframeSafeCheckoutUrl e None lang = Returns None
   \<and> ((URL e = None \<or> (\<exists>api err. URL e = Some api \<and> construct api s = Inl err)) \<longrightarrow>
        getIframeSafeCheckoutUrl e (Some s) lang = Returns (if s = [] then None else Some s))
   \<and> (\<forall>api u. URL e = Some api \<and> construct api s = Inr u \<and> s \<noteq> [] \<longrightarrow>
        (\<exists>u'. getIframeSafeCheckoutUrl e (Some s) lang = Returns (Some (toString api u'))
             \<and> searchParams_get (searchParams u') ''embedded'' = Some ''true''
             \<and> (truthy lang \<longrightarrow> searchParams_get (searchParams u') ''lang'' = lang)
             \<and> (\<not> truthy lang \<longrightarrow>
                  filter (\<lambda>p. fst p = ''lang'') (searchParams u') =
                  filter (\<lambda>p. fst p = ''lang'') (searchParams u))
             \<and> protocol u' = protocol u \<and> host u' = host u \<and> pathname u' = pathname u))"
proof -
  let ?lang = "if truthy lang then lang else None"
  have absent: "getIframeSafeCheckoutUrl e None lang = Returns None"
    by (simp add: iframe_options enhanceCheckoutUrl_def)
  have unparsed: "getIframeSafeCheckoutUrl e (Some s) lang = Returns (if s = [] then None else Some s)"
    if "URL e = None \<or> (\<exists>api err. URL e = Some api \<and> construct api s = Inl err)"
  proof (cases "s = []")
    case True
    then show ?thesis by (simp add: iframe_options enhanceCheckoutUrl_def)
  next
    case False
    then show ?thesis using that by (simp add: iframe_options enhance_unparsed)
  qed
  have parsed: "\<exists>u'. getIframeSafeCheckoutUrl e (Some s) lang = Returns (Some (toString api u'))
             \<and> searchParams_get (searchParams u') ''embedded'' = Some ''true''
             \<and> (truthy lang \<longrightarrow> searchParams_get (searchParams u') ''lang'' = lang)
             \<and> (\<not> truthy lang \<longrightarrow>
                  filter (\<lambda>p. fst p = ''lang'') (searchParams u') =
                  filter (\<lambda>p. fst p = ''lang'') (searchParams u))
             \<and> protocol u' = protocol u \<and> host u' = host u \<and> pathname u' = pathname u"
    if "URL e = Some api" "construct api s = Inr u" "s \<noteq> []" for api u
  proof -
    let ?u' = "add_param True (add_language ?lang u) (''embedded'', ''true'')"
    have result: "getIframeSafeCheckoutUrl e (Some s) lang = Returns (Some (toString api ?u'))"
      using that by (simp add: iframe_options enhance_parsed)
    have embedded: "searchParams_get (searchParams ?u') ''embedded'' = Some ''true''"
      by (simp add: get_via_filter add_param_same)
    have lang_pairs: "filter (\<lambda>p. fst p = ''lang'') (searchParams ?u') =
        filter (\<lambda>p. fst p = ''lang'') (searchParams (add_language ?lang u))"
      by (simp add: add_param_other)
    have given: "truthy lang \<longrightarrow> searchParams_get (searchParams ?u') ''lang'' = lang"
    proof
      assume supplied: "truthy lang"
      then obtain l where l: "lang = Some l" by (cases lang) (simp_all add: truthy_def)
      have passed: "(if truthy lang then lang else None) = lang"
        using supplied by simp
      have "filter (\<lambda>p. fst p = ''lang'') (searchParams ?u') =
          filter (\<lambda>p. fst p = ''lang'') (searchParams (add_language lang u))"
        using lang_pairs by (simp only: passed)
      also have "\<dots> = [(''lang'', l)]"
        using supplied add_language_lang [of lang u] by (simp add: l)
      finally have "filter (\<lambda>p. fst p = ''lang'') (searchParams ?u') = [(''lang'', l)]" .
      then show "searchParams_get (searchParams ?u') ''lang'' = lang"
        by (simp add: get_via_filter l)
    qed
    have not_given: "\<not> truthy lang \<longrightarrow>
        filter (\<lambda>p. fst p = ''lang'') (searchParams ?u') =
        filter (\<lambda>p. fst p = ''lang'') (searchParams u)"
      by (simp add: add_param_other add_language_def)
    have same: "protocol ?u' = protocol u \<and> host ?u' = host u \<and> pathname ?u' = pathname u"
      using add_language_components [of ?lang u] by (simp add: add_param_def)
    from result embedded given not_given same show ?thesis
      by (intro exI [of _ ?u']) (intro conjI; simp)
  qed
  show ?thesis
    using absent unparsed parsed by blast
qed

theorem getIframeSafeCheckoutUrl_embedded_witness:
  "(\<exists>u'. getIframeSafeCheckoutUrl server_env (Some ''https://pay.example/c/abc'') (Some ''de'')
            = Returns (Some (ref_toString u'))
        \<and> searchParams_get (searchParams u') ''embedded'' = Some ''true''
        \<and> searchParams_get (searchParams u') ''lang'' = Some ''de''
        \<and> protocol u' = ''https:'' \<and> host u' = ''pay.example'' \<and> pathname u' = ''/c/abc'')
   \<and> getIframeSafeCheckoutUrl server_env (Some ''https://pay.example/c/abc'') (Some ''de'')
       = Returns (Some ''https://pay.example/c/abc?lang=de&embedded=true'')
   \<and> getIframeSafeCheckoutUrl server_env (Some ''not a url'') (Some ''de'')
       = Returns (Some ''not a url'')"
proof -
  let ?s = "''https://pay.example/c/abc''"
  let ?u = "\<lparr>protocol = ''https:'', host = ''pay.example'', pathname = ''/c/abc'',
          searchParams = [], hash = []\<rparr>"
  have parse: "URL server_env = Some ref_URL \<and> construct ref_URL ?s = Inr ?u \<and> ?s \<noteq> []"
    by (simp add: server_env_def ref_URL_def parse_abc)
  have fails: "URL server_env = Some ref_URL
      \<and> construct ref_URL ''not a url'' = Inl (TypeError ''Invalid URL'')"
    by (simp add: server_env_def ref_URL_def parse_not_a_url)
  have "\<exists>u'. getIframeSafeCheckoutUrl server_env (Some ?s) (Some ''de'')
            = Returns (Some (toString ref_URL u'))
        \<and> searchParams_get (searchParams u') ''embedded'' = Some ''true''
        \<and> (truthy (Some ''de'') \<longrightarrow> searchParams_get (searchParams u') ''lang'' = Some ''de'')
        \<and> (\<not> truthy (Some ''de'') \<longrightarrow>
              filter (\<lambda>p. fst p = ''lang'') (searchParams u') =
              filter (\<lambda>p. fst p = ''lang'') (searchParams ?u))
        \<and> protocol u' = protocol ?u \<and> host u' = host ?u \<and> pathname u' = pathname ?u"
    using getIframeSafeCheckoutUrl_embedded [of server_env "Some ''de''" ?s] parse by blast
  then have first: "\<exists>u'. getIframeSafeCheckoutUrl server_env (Some ?s) (Some ''de'')
            = Returns (Some (ref_toString u'))
        \<and> searchParams_get (searchParams u') ''embedded'' = Some ''true''
        \<and> searchParams_get (searchParams u') ''lang'' = Some ''de''
        \<and> protocol u' = ''https:'' \<and> host u' = ''pay.example'' \<and> pathname u' = ''/c/abc''"
    by (simp add: ref_URL_def truthy_def)
  have example: "getIframeSafeCheckoutUrl server_env (Some ?s) (Some ''de'')
       = Returns (Some ''https://pay.example/c/abc?lang=de&embedded=true'')"
    by code_simp
  have second: "getIframeSafeCheckoutUrl server_env (Some ''not a url'') (Some ''de'')
       = Returns (Some ''not a url'')"
    using getIframeSafeCheckoutUrl_embedded [of server_env "Some ''de''" "''not a url''"] fails
    by auto
  from first example second show ?thesis by (intro conjI)
qed

subsection \<open>Which operations throw\<close>

text \<open>
  \<^verbatim>\<open>redirectToCheckout\<close> throws the error "redirectToCheckout can only be used in
  browser environment" exactly when \<^verbatim>\<open>window\<close> is absent. In an environment of the
  declared shape no other call of an exported operation throws.
\<close>

lemma throws_in_declared_shape:
  assumes "declared_shape e"
  shows "(\<exists>err. invoke e c = Throws err) = (is_redirect c \<and> window e = None)"
proof (cases c)
  case (EnhanceCheckoutUrl x options)
  then show ?thesis using enhance_returns [of e x options] by auto
next
  case (ExtractLanguageFromUrl s)
  then show ?thesis using extract_returns [of e s] by auto
next
  case IsChromium
  then show ?thesis using browserutils_declared_shape [OF assms] by auto
next
  case IsFirefox
  then show ?thesis using browserutils_declared_shape [OF assms] by auto
next
  case NeedsLanguageWorkaround
  then show ?thesis using browserutils_declared_shape [OF assms] by auto
next
  case (RedirectToCheckout s lang)
  show ?thesis
  proof (cases "window e")
    case None
    then show ?thesis using RedirectToCheckout by (simp add: redirect_no_window)
  next
    case (Some win)
    then obtain loc where "location win = Some loc"
      using assms by (auto simp: declared_shape_def)
    then show ?thesis
      using Some RedirectToCheckout redirect_window [of e win loc s lang] by auto
  qed
next
  case (GetIframeSafeCheckoutUrl x lang)
  then show ?thesis using iframe_returns [of e x lang] by auto
qed simp_all

text \<open>
  C8. \<^verbatim>\<open>redirectToCheckout\<close> is to be the only operation that throws, and only when
  there is no \<^verbatim>\<open>window\<close>. The members of \<^verbatim>\<open>BrowserUtils\<close> test that \<^verbatim>\<open>navigator\<close> is
  there but not that it has a \<^verbatim>\<open>userAgent\<close>, as \<^verbatim>\<open>getPreferredLanguage\<close> does for
  \<^verbatim>\<open>language\<close>, and \<^verbatim>\<open>redirectToCheckout\<close> tests \<^verbatim>\<open>window\<close> but not its \<^verbatim>\<open>location\<close>:
  where both are the empty object, \<^verbatim>\<open>isChromium\<close>, \<^verbatim>\<open>isFirefox\<close> and
  \<^verbatim>\<open>needsLanguageWorkaround\<close> throw a TypeError, and so does \<^verbatim>\<open>redirectToCheckout\<close>
  although a window is present.
\<close>

theorem unguarded_fields_throw:
  "invoke empty_objects_env IsChromium
     = Throws (TypeError ''Cannot read properties of undefined (reading toLowerCase)'')
   \<and> invoke empty_objects_env IsFirefox
     = Throws (TypeError ''Cannot read properties of undefined (reading toLowerCase)'')
   \<and> invoke empty_objects_env NeedsLanguageWorkaround
     = Throws (TypeError ''Cannot read properties of undefined (reading toLowerCase)'')
   \<and> invoke empty_objects_env (RedirectToCheckout ''https://pay.example/c/abc'' None)
     = Throws (TypeError ''Cannot set properties of undefined (setting href)'')
   \<and> window empty_objects_env = Some \<lparr>location = None\<rparr>
   \<and> invoke empty_objects_env GetPreferredLanguage = Returns (StringOrNull (Some ''en''))"
  by code_simp

subsection \<open>BrowserUtils.isChromium\<close>



subsection \<open>extractLanguageFromUrl: empty values\<close>

text \<open>
  An empty \<^verbatim>\<open>lang\<close> is passed over for \<^verbatim>\<open>language\<close>, and an empty \<^verbatim>\<open>language\<close> for
  \<^verbatim>\<open>locale\<close>: the operator \<^verbatim>\<open>||\<close> moves on from a falsy left operand.
\<close>

lemma extract_passes_over_empty:
  assumes "URL e = Some api" and "construct api s = Inr u"
  shows "(searchParams_get (searchParams u) ''lang'' = Some [] \<longrightarrow>
            truthy (searchParams_get (searchParams u) ''language'') \<longrightarrow>
            extractLanguageFromUrl e s = Returns (searchParams_get (searchParams u) ''language''))
       \<and> (\<not> truthy (searchParams_get (searchParams u) ''lang'') \<longrightarrow>
            \<not> truthy (searchParams_get (searchParams u) ''language'') \<longrightarrow>
            extractLanguageFromUrl e s = Returns (searchParams_get (searchParams u) ''locale''))"
proof -
  have "\<not> truthy (Some [])" by (simp add: truthy_def)
  then show ?thesis
    using assms by (auto simp: extract_parsed js_or_def)
qed

text \<open>
  C10. \<^verbatim>\<open>extractLanguageFromUrl\<close> is to treat a candidate with the empty value as
  absent, and to return null when every candidate that is present is empty. The last
  operand of the \<^verbatim>\<open>||\<close> chain is returned as it is, so an empty \<^verbatim>\<open>locale\<close> is not
  passed over: for \<^verbatim>\<open>?lang=&locale=\<close> the result is the empty string, not null.
\<close>

theorem extractLanguageFromUrl_empty_locale_returned:
  "extractLanguageFromUrl server_env ''https://pay.example/c/abc?lang=&locale='' = Returns (Some [])
   \<and> extractLanguageFromUrl server_env ''https://pay.example/c/abc?lang=&locale='' \<noteq> Returns None
   \<and> ref_construct ''https://pay.example/c/abc?lang=&locale='' =
       Inr \<lparr>protocol = ''https:'', host = ''pay.example'', pathname = ''/c/abc'',
            searchParams = [(''lang'', []), (''locale'', [])], hash = []\<rparr>"
  by code_simp

end
